theory Spec2Isabelle
  imports Main "HOL-Library.Word"
begin

section \<open>The gl3w loader template (src/template/gl3w.header.c)\<close>

text \<open>
  The translation unit has three compile-time variants (\<^verbatim>\<open>_WIN32\<close>, \<^verbatim>\<open>__APPLE__\<close>, the
  rest), a file-scope \<^verbatim>\<open>version\<close> struct, and the functions \<^verbatim>\<open>parse_version\<close>,
  \<^verbatim>\<open>gl3wInit\<close>, \<^verbatim>\<open>gl3wIsSupported\<close> and \<^verbatim>\<open>gl3wGetProcAddress\<close>.  The file-scope variables
  become one record that every function takes and returns; the operating system and the
  driver become a record of functions (\<open>host\<close>) that the loader calls.
\<close>

subsection \<open>Values\<close>

text \<open>A C \<^verbatim>\<open>int\<close> is 32 bits wide; \<open>sint\<close> reads it as two's complement.\<close>

type_synonym c_int = "32 word"

text \<open>
  A pointer or handle (\<^verbatim>\<open>GL3WglProc\<close>, \<^verbatim>\<open>HMODULE\<close>, \<^verbatim>\<open>void *\<close>, \<^verbatim>\<open>CFBundleRef\<close>,
  \<^verbatim>\<open>CFURLRef\<close>) is an address; address \<open>0\<close> is \<^verbatim>\<open>NULL\<close>, so \<^verbatim>\<open>!res\<close> is \<open>res = 0\<close>.
\<close>

type_synonym ptr = nat

text \<open>The two parameter names that \<^verbatim>\<open>parse_version\<close> passes to \<^verbatim>\<open>glGetIntegerv\<close>.\<close>

datatype pname = GL_MAJOR_VERSION | GL_MINOR_VERSION

text \<open>The three branches of the \<^verbatim>\<open>#ifdef\<close> chain at the top of the file.\<close>

datatype platform = Win32 | Apple | Posix

subsection \<open>The host: operating system and driver\<close>

text \<open>
  Every field is one external function the source calls, as a function of its arguments.
  The last two are calls through a function pointer held in a variable: the first argument
  is the address called.  \<open>call_glGetIntegerv h f pn old\<close> is what the callee at address
  \<open>f\<close> leaves in \<^verbatim>\<open>*data\<close> when it held \<open>old\<close> before the call (a driver that rejects
  the query leaves \<open>old\<close> in place).  Each of these external functions is taken to return
  to its caller.

  The three functions that \<^verbatim>\<open>close_libgl\<close> calls (\<^verbatim>\<open>FreeLibrary\<close>, \<^verbatim>\<open>CFRelease\<close>,
  \<^verbatim>\<open>dlclose\<close>) give nothing the source reads; what matters is whether the call comes
  back at all, and that depends on the handle: \<^verbatim>\<open>dlclose(NULL)\<close> of glibc and
  \<^verbatim>\<open>CFRelease(NULL)\<close> end the process.  \<open>dlclose_returns h l\<close> says that \<^verbatim>\<open>dlclose(l)\<close>
  returns on host \<open>h\<close>, and likewise the other two.
\<close>

record host =
  LoadLibraryA :: "string \<Rightarrow> ptr"
  wglGetProcAddress :: "string \<Rightarrow> ptr"
  GetProcAddress :: "ptr \<Rightarrow> string \<Rightarrow> ptr"
  CFURLCreateWithFileSystemPath :: "string \<Rightarrow> ptr"
  CFBundleCreate :: "ptr \<Rightarrow> ptr"
  CFBundleGetFunctionPointerForName :: "ptr \<Rightarrow> string \<Rightarrow> ptr"
  dlopen :: "string \<Rightarrow> ptr"
  dlsym :: "ptr \<Rightarrow> string \<Rightarrow> ptr"
  call_glXGetProcAddress :: "ptr \<Rightarrow> string \<Rightarrow> ptr"
  call_glGetIntegerv :: "ptr \<Rightarrow> pname \<Rightarrow> c_int \<Rightarrow> c_int"
  FreeLibrary_returns :: "ptr \<Rightarrow> bool"
  CFRelease_returns :: "ptr \<Rightarrow> bool"
  dlclose_returns :: "ptr \<Rightarrow> bool"

subsection \<open>The loader's variables\<close>

text \<open>\<^verbatim>\<open>static struct { int major, minor; } version;\<close>\<close>

record version_t =
  major :: c_int
  minor :: c_int

text \<open>
  The loader functions a run has entered, in order.  This list is not a variable of the
  source: it records the order of the calls so that it can be stated.
\<close>

datatype event = Ev_open_libgl | Ev_get_proc string | Ev_close_libgl | Ev_parse_version

text \<open>
  \<open>libgl\<close> (Windows and the default branch), \<open>glx_get_proc_address\<close> (default branch),
  \<open>bundle_ref\<close> and \<open>bundleURL\<close> (Apple; the source calls the first one \<^verbatim>\<open>bundle\<close>),
  \<open>version\<close>, and \<open>procs\<close>: the function-pointer variables of the generated header, one
  for each catalog symbol, indexed by the symbol's name.
\<close>

record loader =
  libgl :: ptr
  glx_get_proc_address :: ptr
  bundle_ref :: ptr
  bundleURL :: ptr
  version :: version_t
  procs :: "string \<Rightarrow> ptr"
  trace :: "event list"

text \<open>Objects with static storage duration start as zero.\<close>

definition init_loader :: loader where
  "init_loader =
     \<lparr>libgl = 0, glx_get_proc_address = 0, bundle_ref = 0, bundleURL = 0,
      version = \<lparr>major = 0, minor = 0\<rparr>, procs = (\<lambda>_. 0), trace = []\<rparr>"

subsection \<open>Outcomes\<close>

text \<open>
  A function of the loader either returns to its caller or ends the process: through the
  failed \<^verbatim>\<open>assert\<close> of the Apple \<^verbatim>\<open>open_libgl\<close> (the file does not define
  \<^verbatim>\<open>NDEBUG\<close>, so the assertion is compiled in), through a call of a null function
  pointer (undefined in C; nothing is returned to the caller), or inside an external
  function that does not come back (\<open>Fault\<close>).
\<close>

datatype 'a outcome = Returns 'a | AssertFailed | NullCall | Fault

definition and_then :: "'a outcome \<Rightarrow> ('a \<Rightarrow> 'b outcome) \<Rightarrow> 'b outcome" where
  "and_then m f =
     (case m of Returns x \<Rightarrow> f x | AssertFailed \<Rightarrow> AssertFailed | NullCall \<Rightarrow> NullCall
      | Fault \<Rightarrow> Fault)"

definition enter :: "event \<Rightarrow> loader \<Rightarrow> loader" where
  "enter e s = s\<lparr>trace := trace s @ [e]\<rparr>"

subsection \<open>The platform block\<close>

text \<open>
  \<^verbatim>\<open>open_libgl\<close>.  Windows: \<^verbatim>\<open>libgl = LoadLibraryA("opengl32.dll")\<close>.  Apple: create the
  URL, create the bundle, \<^verbatim>\<open>assert(bundle != NULL)\<close>.  Default: \<^verbatim>\<open>dlopen\<close>, then
  \<^verbatim>\<open>glx_get_proc_address = dlsym(libgl, "glXGetProcAddressARB")\<close>; neither result is tested.
\<close>

definition open_libgl :: "platform \<Rightarrow> host \<Rightarrow> loader \<Rightarrow> loader outcome" where
  "open_libgl p h s0 =
     (let s = enter Ev_open_libgl s0 in
      case p of
        Win32 \<Rightarrow> Returns (s\<lparr>libgl := LoadLibraryA h ''opengl32.dll''\<rparr>)
      | Apple \<Rightarrow>
          (let url = CFURLCreateWithFileSystemPath h ''/System/Library/Frameworks/OpenGL.framework'';
               b = CFBundleCreate h url
           in if b \<noteq> 0 then Returns (s\<lparr>bundleURL := url, bundle_ref := b\<rparr>) else AssertFailed)
      | Posix \<Rightarrow>
          (let l = dlopen h ''libGL.so.1''
           in Returns (s\<lparr>libgl := l, glx_get_proc_address := dlsym h l ''glXGetProcAddressARB''\<rparr>)))"

text \<open>
  \<^verbatim>\<open>close_libgl\<close>.  Windows: \<^verbatim>\<open>FreeLibrary(libgl)\<close>.  Apple: \<^verbatim>\<open>CFRelease(bundle)\<close>, then
  \<^verbatim>\<open>CFRelease(bundleURL)\<close>.  Default: \<^verbatim>\<open>dlclose(libgl)\<close>.  No handle is tested before
  the call, no result is read, and no variable is assigned.
\<close>

definition close_libgl :: "platform \<Rightarrow> host \<Rightarrow> loader \<Rightarrow> loader outcome" where
  "close_libgl p h s0 =
     (let s = enter Ev_close_libgl s0 in
      case p of
        Win32 \<Rightarrow> (if FreeLibrary_returns h (libgl s) then Returns s else Fault)
      | Apple \<Rightarrow>
          (if CFRelease_returns h (bundle_ref s)
           then (if CFRelease_returns h (bundleURL s) then Returns s else Fault)
           else Fault)
      | Posix \<Rightarrow> (if dlclose_returns h (libgl s) then Returns s else Fault))"

text \<open>
  \<^verbatim>\<open>get_proc\<close>.  Windows: \<^verbatim>\<open>wglGetProcAddress\<close>, and \<^verbatim>\<open>GetProcAddress(libgl, proc)\<close> if
  that was null.  Apple: the bundle's lookup.  Default: a call through
  \<^verbatim>\<open>glx_get_proc_address\<close>, with no test of that pointer, and \<^verbatim>\<open>dlsym(libgl, proc)\<close> if the
  result was null.
\<close>

definition get_proc :: "platform \<Rightarrow> host \<Rightarrow> string \<Rightarrow> loader \<Rightarrow> (ptr \<times> loader) outcome" where
  "get_proc p h proc s0 =
     (let s = enter (Ev_get_proc proc) s0 in
      case p of
        Win32 \<Rightarrow>
          (let res = wglGetProcAddress h proc;
               res = (if res = 0 then GetProcAddress h (libgl s) proc else res)
           in Returns (res, s))
      | Apple \<Rightarrow> Returns (CFBundleGetFunctionPointerForName h (bundle_ref s) proc, s)
      | Posix \<Rightarrow>
          (if glx_get_proc_address s = 0 then NullCall
           else
             (let res = call_glXGetProcAddress h (glx_get_proc_address s) proc;
                  res = (if res = 0 then dlsym h (libgl s) proc else res)
              in Returns (res, s))))"

subsection \<open>Version detection\<close>

text \<open>
  In \<^verbatim>\<open>parse_version\<close> the name \<^verbatim>\<open>glGetIntegerv\<close> is the generated header's alias of the
  pointer variable of the symbol glGetIntegerv: \<open>procs s ''glGetIntegerv''\<close>.
\<close>

definition parse_version :: "host \<Rightarrow> loader \<Rightarrow> c_int \<times> loader" where
  "parse_version h s0 =
     (let s = enter Ev_parse_version s0;
          f = procs s ''glGetIntegerv''
      in if f = 0 then (- 1, s)
         else
           (let s = s\<lparr>version := (version s)\<lparr>major := call_glGetIntegerv h f GL_MAJOR_VERSION (major (version s))\<rparr>\<rparr>;
                s = s\<lparr>version := (version s)\<lparr>minor := call_glGetIntegerv h f GL_MINOR_VERSION (minor (version s))\<rparr>\<rparr>
            in if sint (major (version s)) < 3 then (- 1, s) else (0, s)))"

text \<open>\<^verbatim>\<open>gl3wIsSupported\<close>: a comparison in C yields the \<^verbatim>\<open>int\<close> 1 or 0.\<close>

definition gl3wIsSupported :: "loader \<Rightarrow> c_int \<Rightarrow> c_int \<Rightarrow> c_int" where
  "gl3wIsSupported s major' minor' =
     (if sint major' < 3 then 0
      else if major (version s) = major' then (if sint (minor (version s)) \<ge> sint minor' then 1 else 0)
      else (if sint (major (version s)) \<ge> sint major' then 1 else 0))"


subsection \<open>Loading the catalog\<close>

text \<open>
  Modelled from the spec: the body of \<^verbatim>\<open>load_procs\<close>, which the template only declares
  (\<^verbatim>\<open>static void load_procs(void);\<close>) and the generator writes.  The spec: for every symbol
  in catalog order, call the get-address procedure with the symbol's name and assign the
  result, null or not, to the symbol's pointer variable, for the entire catalog.
\<close>

fun load_procs :: "platform \<Rightarrow> host \<Rightarrow> string list \<Rightarrow> loader \<Rightarrow> loader outcome" where
  "load_procs p h [] s = Returns s"
| "load_procs p h (name # names) s =
     and_then (get_proc p h name s)
       (\<lambda>(res, s1). load_procs p h names (s1\<lparr>procs := (procs s1)(name := res)\<rparr>))"

subsection \<open>Initialisation\<close>

text \<open>
  \<^verbatim>\<open>gl3wInit\<close>: \<^verbatim>\<open>open_libgl(); load_procs(); close_libgl(); return parse_version();\<close>
  The catalog is the list of symbol names the generator put into \<^verbatim>\<open>load_procs\<close>.
\<close>

definition gl3wInit :: "platform \<Rightarrow> host \<Rightarrow> string list \<Rightarrow> loader \<Rightarrow> (c_int \<times> loader) outcome" where
  "gl3wInit p h catalog s =
     and_then (open_libgl p h s) (\<lambda>s1.
     and_then (load_procs p h catalog s1) (\<lambda>s2.
     and_then (close_libgl p h s2) (\<lambda>s3.
     Returns (parse_version h s3))))"

subsection \<open>The specification's reading of the support query\<close>

text \<open>
  The rule of the specification for \<open>isSupported\<close>, word by word, over mathematical
  integers: the two numbers of VersionInfo, then the two arguments.
\<close>

definition isSupported_spec :: "int \<Rightarrow> int \<Rightarrow> int \<Rightarrow> int \<Rightarrow> bool" where
  "isSupported_spec vmajor vminor major' minor' =
     (if major' < 3 then False
      else if vmajor = major' then vminor \<ge> minor'
      else vmajor \<ge> major')"

text \<open>
  The two-step rule in words: the first lookup's result whenever it is not null, the second
  lookup's result for the same name only when the first is null.
\<close>

definition fallback_spec :: "(string \<Rightarrow> ptr) \<Rightarrow> (string \<Rightarrow> ptr) \<Rightarrow> string \<Rightarrow> ptr" where
  "fallback_spec first second name = (if first name \<noteq> 0 then first name else second name)"

text \<open>The loader's state with \<open>version\<close> set to the given two numbers.\<close>

definition with_version :: "loader \<Rightarrow> c_int \<Rightarrow> c_int \<Rightarrow> loader" where
  "with_version s a b = s\<lparr>version := \<lparr>major = a, minor = b\<rparr>\<rparr>"

subsection \<open>Two hosts to run the loader on\<close>

text \<open>
  When every step of \<^verbatim>\<open>gl3wInit\<close> comes back, in terms of the host alone.  Windows:
  \<^verbatim>\<open>FreeLibrary\<close> returns on the handle \<^verbatim>\<open>LoadLibraryA\<close> gave.  Apple: the bundle was
  created, and \<^verbatim>\<open>CFRelease\<close> returns on the bundle and on the URL.  Default: the catalog is
  empty or \<^verbatim>\<open>glXGetProcAddressARB\<close> was found, and \<^verbatim>\<open>dlclose\<close> returns on the handle
  \<^verbatim>\<open>dlopen\<close> gave.
\<close>

definition steps_return :: "platform \<Rightarrow> host \<Rightarrow> string list \<Rightarrow> bool" where
  "steps_return p h catalog =
     (case p of
        Win32 \<Rightarrow> FreeLibrary_returns h (LoadLibraryA h ''opengl32.dll'')
      | Apple \<Rightarrow>
          (let url = CFURLCreateWithFileSystemPath h ''/System/Library/Frameworks/OpenGL.framework'';
               b = CFBundleCreate h url
           in b \<noteq> 0 \<and> CFRelease_returns h b \<and> CFRelease_returns h url)
      | Posix \<Rightarrow>
          (let l = dlopen h ''libGL.so.1''
           in (catalog = [] \<or> dlsym h l ''glXGetProcAddressARB'' \<noteq> 0) \<and> dlclose_returns h l))"


text \<open>
  A machine with no OpenGL at all: every lookup fails, no call stores a number.  As on
  the real platforms, \<^verbatim>\<open>FreeLibrary\<close> returns on every handle, \<^verbatim>\<open>CFRelease\<close> and
  \<^verbatim>\<open>dlclose\<close> on every handle but null.
\<close>

definition no_driver :: host where
  "no_driver =
     \<lparr>LoadLibraryA = (\<lambda>_. 0), wglGetProcAddress = (\<lambda>_. 0), GetProcAddress = (\<lambda>_ _. 0),
      CFURLCreateWithFileSystemPath = (\<lambda>_. 0), CFBundleCreate = (\<lambda>_. 0),
      CFBundleGetFunctionPointerForName = (\<lambda>_ _. 0), dlopen = (\<lambda>_. 0), dlsym = (\<lambda>_ _. 0),
      call_glXGetProcAddress = (\<lambda>_ _. 0), call_glGetIntegerv = (\<lambda>_ _ old. old),
      FreeLibrary_returns = (\<lambda>_. True), CFRelease_returns = (\<lambda>r. r \<noteq> 0),
      dlclose_returns = (\<lambda>l. l \<noteq> 0)\<rparr>"

text \<open>
  A simulated driver that knows \<^verbatim>\<open>glBar\<close> and \<^verbatim>\<open>glGetIntegerv\<close>, does not know
  \<^verbatim>\<open>glFoo\<close>, and reports the version it is given.
\<close>

definition sim_lookup :: "string \<Rightarrow> ptr" where
  "sim_lookup name = (if name = ''glBar'' then 7 else if name = ''glGetIntegerv'' then 9 else 0)"

definition sim_driver :: "c_int \<Rightarrow> c_int \<Rightarrow> host" where
  "sim_driver vmajor vminor =
     \<lparr>LoadLibraryA = (\<lambda>_. 100), wglGetProcAddress = sim_lookup, GetProcAddress = (\<lambda>_ _. 0),
      CFURLCreateWithFileSystemPath = (\<lambda>_. 101), CFBundleCreate = (\<lambda>_. 102),
      CFBundleGetFunctionPointerForName = (\<lambda>_. sim_lookup), dlopen = (\<lambda>_. 100),
      dlsym = (\<lambda>_ name. if name = ''glXGetProcAddressARB'' then 50 else 0),
      call_glXGetProcAddress = (\<lambda>_. sim_lookup),
      call_glGetIntegerv = (\<lambda>_ pn _. case pn of GL_MAJOR_VERSION \<Rightarrow> vmajor | GL_MINOR_VERSION \<Rightarrow> vminor),
      FreeLibrary_returns = (\<lambda>_. True), CFRelease_returns = (\<lambda>r. r \<noteq> 0),
      dlclose_returns = (\<lambda>l. l \<noteq> 0)\<rparr>"

section \<open>Facts about the functions\<close>

lemmas run_defs = gl3wInit_def and_then_def open_libgl_def close_libgl_def parse_version_def
  get_proc_def enter_def init_loader_def sim_driver_def sim_lookup_def no_driver_def Let_def

lemma and_then_Returns:
  "and_then m f = Returns y \<longleftrightarrow> (\<exists>x. m = Returns x \<and> f x = Returns y)"
  by (cases m) (simp_all add: and_then_def)

lemma get_proc_Returns:
  "get_proc p h proc s = Returns (res, s') \<Longrightarrow> s' = enter (Ev_get_proc proc) s"
  by (cases p) (auto simp add: get_proc_def Let_def split: if_splits)

lemma get_proc_ready:
  "p = Posix \<longrightarrow> glx_get_proc_address s \<noteq> 0 \<Longrightarrow>
     \<exists>res. get_proc p h proc s = Returns (res, enter (Ev_get_proc proc) s)"
  by (cases p) (auto simp add: get_proc_def Let_def enter_def)


text \<open>Loading writes pointer variables and nothing else.\<close>

lemma load_procs_Returns:
  "load_procs p h catalog s = Returns s' \<Longrightarrow>
     trace s' = trace s @ map Ev_get_proc catalog \<and> libgl s' = libgl s \<and>
     glx_get_proc_address s' = glx_get_proc_address s \<and> bundle_ref s' = bundle_ref s \<and>
     bundleURL s' = bundleURL s \<and> version s' = version s"
proof (induction catalog arbitrary: s)
  case Nil
  then show ?case by simp
next
  case (Cons name names)
  from Cons.prems obtain res s1 where
    g: "get_proc p h name s = Returns (res, s1)" and
    l: "load_procs p h names (s1\<lparr>procs := (procs s1)(name := res)\<rparr>) = Returns s'"
    by (auto simp add: and_then_Returns)
  from g have s1: "s1 = enter (Ev_get_proc name) s" by (rule get_proc_Returns)
  from Cons.IH [OF l] show ?case by (simp add: s1 enter_def)
qed



lemma load_procs_ready:
  "p = Posix \<longrightarrow> glx_get_proc_address s \<noteq> 0 \<Longrightarrow> \<exists>s'. load_procs p h catalog s = Returns s'"
proof (induction catalog arbitrary: s)
  case Nil
  then show ?case by simp
next
  case (Cons n ns)
  from get_proc_ready [OF Cons.prems] obtain res where
    g: "get_proc p h n s = Returns (res, enter (Ev_get_proc n) s)" by blast
  let ?t = "(enter (Ev_get_proc n) s)\<lparr>procs := (procs (enter (Ev_get_proc n) s))(n := res)\<rparr>"
  from Cons.prems have "p = Posix \<longrightarrow> glx_get_proc_address ?t \<noteq> 0" by (simp add: enter_def)
  from Cons.IH [OF this] show ?case by (simp add: g and_then_def)
qed

lemma close_libgl_Returns:
  "close_libgl p h s = Returns s3 \<longleftrightarrow>
     s3 = enter Ev_close_libgl s \<and>
     (case p of
        Win32 \<Rightarrow> FreeLibrary_returns h (libgl s)
      | Apple \<Rightarrow> CFRelease_returns h (bundle_ref s) \<and> CFRelease_returns h (bundleURL s)
      | Posix \<Rightarrow> dlclose_returns h (libgl s))"
  by (cases p) (auto simp add: close_libgl_def Let_def enter_def)

lemma gl3wInit_Returns:
  "gl3wInit p h catalog s = Returns (r, s') \<longleftrightarrow>
     (\<exists>s1 s2. open_libgl p h s = Returns s1 \<and> load_procs p h catalog s1 = Returns s2 \<and>
        close_libgl p h s2 = Returns (enter Ev_close_libgl s2) \<and>
        parse_version h (enter Ev_close_libgl s2) = (r, s'))"
  by (auto simp add: gl3wInit_def and_then_Returns close_libgl_Returns)

lemma open_libgl_Returns:
  "open_libgl p h s = Returns s1 \<Longrightarrow>
     trace s1 = trace s @ [Ev_open_libgl] \<and> version s1 = version s \<and> procs s1 = procs s"
  by (cases p) (auto simp add: open_libgl_def Let_def enter_def split: if_splits)

lemma parse_version_frame:
  "parse_version h s = (r, s') \<Longrightarrow> trace s' = trace s @ [Ev_parse_version] \<and> procs s' = procs s"
  by (auto simp add: parse_version_def Let_def enter_def split: if_splits)

lemma load_procs_nonempty:
  "load_procs Posix h catalog s = Returns s' \<Longrightarrow> catalog \<noteq> [] \<Longrightarrow> glx_get_proc_address s \<noteq> 0"
  by (cases catalog) (auto simp add: and_then_Returns get_proc_def Let_def enter_def split: if_splits)

text \<open>
  \<^verbatim>\<open>gl3wInit\<close> returns exactly on the hosts where every step comes back, and then each
  step has returned in turn.
\<close>

lemma gl3wInit_total:
  assumes "steps_return p h catalog"
  shows "\<exists>r s' s1 s2. gl3wInit p h catalog s = Returns (r, s') \<and> open_libgl p h s = Returns s1
           \<and> load_procs p h catalog s1 = Returns s2
           \<and> close_libgl p h s2 = Returns (enter Ev_close_libgl s2)
           \<and> parse_version h (enter Ev_close_libgl s2) = (r, s')"
proof -
  have "\<exists>s1 s2. open_libgl p h s = Returns s1 \<and> load_procs p h catalog s1 = Returns s2
           \<and> close_libgl p h s2 = Returns (enter Ev_close_libgl s2)"
  proof (cases p)
    case Win32
    let ?s1 = "(enter Ev_open_libgl s)\<lparr>libgl := LoadLibraryA h ''opengl32.dll''\<rparr>"
    have o: "open_libgl p h s = Returns ?s1" by (simp add: Win32 open_libgl_def)
    have "p = Posix \<longrightarrow> glx_get_proc_address ?s1 \<noteq> 0" by (simp add: Win32)
    from load_procs_ready [OF this] obtain s2 where l: "load_procs p h catalog ?s1 = Returns s2"
      by blast
    from load_procs_Returns [OF l] assms
    have "close_libgl p h s2 = Returns (enter Ev_close_libgl s2)"
      by (simp add: close_libgl_Returns Win32 steps_return_def)
    with o l show ?thesis by blast
  next
    case Apple
    let ?url = "CFURLCreateWithFileSystemPath h ''/System/Library/Frameworks/OpenGL.framework''"
    let ?s1 = "(enter Ev_open_libgl s)\<lparr>bundleURL := ?url, bundle_ref := CFBundleCreate h ?url\<rparr>"
    from assms have o: "open_libgl p h s = Returns ?s1"
      by (simp add: Apple open_libgl_def steps_return_def Let_def)
    have "p = Posix \<longrightarrow> glx_get_proc_address ?s1 \<noteq> 0" by (simp add: Apple)
    from load_procs_ready [OF this] obtain s2 where l: "load_procs p h catalog ?s1 = Returns s2"
      by blast
    from load_procs_Returns [OF l] assms
    have "close_libgl p h s2 = Returns (enter Ev_close_libgl s2)"
      by (simp add: close_libgl_Returns Apple steps_return_def Let_def)
    with o l show ?thesis by blast
  next
    case Posix
    let ?l = "dlopen h ''libGL.so.1''"
    let ?s1 = "(enter Ev_open_libgl s)\<lparr>libgl := ?l,
        glx_get_proc_address := dlsym h ?l ''glXGetProcAddressARB''\<rparr>"
    have o: "open_libgl p h s = Returns ?s1" by (simp add: Posix open_libgl_def Let_def)
    have "\<exists>s2. load_procs p h catalog ?s1 = Returns s2"
    proof (cases "catalog = []")
      case True
      then show ?thesis by simp
    next
      case False
      with assms have "p = Posix \<longrightarrow> glx_get_proc_address ?s1 \<noteq> 0"
        by (simp add: Posix steps_return_def Let_def)
      from load_procs_ready [OF this] show ?thesis .
    qed
    then obtain s2 where l: "load_procs p h catalog ?s1 = Returns s2" ..
    from load_procs_Returns [OF l] assms
    have "close_libgl p h s2 = Returns (enter Ev_close_libgl s2)"
      by (simp add: close_libgl_Returns Posix steps_return_def Let_def)
    with o l show ?thesis by blast
  qed
  then obtain s1 s2 where
    o: "open_libgl p h s = Returns s1" and l: "load_procs p h catalog s1 = Returns s2" and
    c: "close_libgl p h s2 = Returns (enter Ev_close_libgl s2)"
    by blast
  obtain r s' where v: "parse_version h (enter Ev_close_libgl s2) = (r, s')"
    by (cases "parse_version h (enter Ev_close_libgl s2)") simp
  from o l c v have "gl3wInit p h catalog s = Returns (r, s')"
    by (auto simp add: gl3wInit_Returns)
  with o l c v show ?thesis by blast
qed

lemma gl3wInit_Returns_iff:
  "(\<exists>r s'. gl3wInit p h catalog s = Returns (r, s')) \<longleftrightarrow> steps_return p h catalog"
proof
  assume "steps_return p h catalog"
  from gl3wInit_total [OF this, of s] show "\<exists>r s'. gl3wInit p h catalog s = Returns (r, s')"
    by blast
next
  assume "\<exists>r s'. gl3wInit p h catalog s = Returns (r, s')"
  then obtain r s' s1 s2 where
    o: "open_libgl p h s = Returns s1" and l: "load_procs p h catalog s1 = Returns s2" and
    c: "close_libgl p h s2 = Returns (enter Ev_close_libgl s2)"
    by (auto simp add: gl3wInit_Returns)
  note f = load_procs_Returns [OF l]
  show "steps_return p h catalog"
  proof (cases p)
    case Win32
    with o c f show ?thesis
      by (auto simp add: steps_return_def open_libgl_def close_libgl_Returns Let_def enter_def)
  next
    case Apple
    with o c f show ?thesis
      by (auto simp add: steps_return_def open_libgl_def close_libgl_Returns Let_def enter_def
          split: if_splits)
  next
    case Posix
    from o have s1: "libgl s1 = dlopen h ''libGL.so.1''"
      "glx_get_proc_address s1 = dlsym h (dlopen h ''libGL.so.1'') ''glXGetProcAddressARB''"
      by (auto simp add: Posix open_libgl_def Let_def enter_def)
    have x: "catalog = [] \<or> dlsym h (dlopen h ''libGL.so.1'') ''glXGetProcAddressARB'' \<noteq> 0"
    proof (cases "catalog = []")
      case True
      then show ?thesis by simp
    next
      case False
      from l have "load_procs Posix h catalog s1 = Returns s2" by (simp add: Posix)
      from load_procs_nonempty [OF this False] s1 show ?thesis by simp
    qed
    from c f s1 have y: "dlclose_returns h (dlopen h ''libGL.so.1'')"
      by (simp add: Posix close_libgl_Returns)
    from x y show ?thesis by (simp add: Posix steps_return_def Let_def)
  qed
qed

text \<open>
  The default branch on a machine where \<^verbatim>\<open>dlopen\<close> fails but the program is linked with
  libGL, so that \<^verbatim>\<open>dlsym(NULL, "glXGetProcAddressARB")\<close> finds the function: loading goes
  through and the process ends in \<^verbatim>\<open>dlclose(NULL)\<close>.
\<close>

lemma posix_dlclose_null:
  "gl3wInit Posix ((sim_driver 3 2)\<lparr>dlopen := (\<lambda>_. 0)\<rparr>) [''glFoo'', ''glBar''] init_loader = Fault"
  by (simp add: run_defs)

section \<open>The claims\<close>

text \<open>
  C1 (as amended).  For every state of \<open>version\<close> and every pair of arguments,
  \<open>gl3wIsSupported\<close> returns 1 where the specification's rule (false if major < 3; the
  comparison of the minors if the majors are equal; the comparison of the majors otherwise)
  gives true, and 0 where it gives false.  With version 3.2: (3,1) gives 1, (3,3) gives 0,
  (4,0) gives 0, (3,2) gives 1, and (2,0) gives 0.
\<close>

theorem gl3wIsSupported_rule:
  "gl3wIsSupported s major' minor' =
     (if isSupported_spec (sint (major (version s))) (sint (minor (version s)))
           (sint major') (sint minor') then 1 else 0)
   \<and> gl3wIsSupported (with_version s 3 2) 3 1 = 1
   \<and> gl3wIsSupported (with_version s 3 2) 3 3 = 0
   \<and> gl3wIsSupported (with_version s 3 2) 4 0 = 0
   \<and> gl3wIsSupported (with_version s 3 2) 3 2 = 1
   \<and> gl3wIsSupported (with_version s 3 2) 2 0 = 0"
proof -
  have "gl3wIsSupported s major' minor' =
     (if isSupported_spec (sint (major (version s))) (sint (minor (version s)))
           (sint major') (sint minor') then 1 else 0)"
    by (auto simp add: gl3wIsSupported_def isSupported_spec_def dest: signed_word_eqI)
  then show ?thesis
    by (simp add: gl3wIsSupported_def with_version_def)
qed

text \<open>
  C1 as the specification states it says that with version 3.2 the query (2,0) is true.
  The code answers 0: the test \<^verbatim>\<open>major < 3\<close> comes first.
\<close>

theorem gl3wIsSupported_2_0_counterexample:
  "gl3wIsSupported (with_version init_loader 3 2) 2 0 = 0"
  by (simp add: gl3wIsSupported_def with_version_def)

text \<open>
  C2.  \<open>parse_version\<close> returns a nonzero value, and then \<open>-1\<close>, exactly when the pointer
  of glGetIntegerv is null or the major number the call reports is below 3.  When it
  returns 0, \<open>version\<close> holds the two numbers the calls reported.
\<close>

theorem parse_version_result:
  fixes h :: host and s :: loader
  defines "f \<equiv> procs s ''glGetIntegerv''"
  defines "reported_major \<equiv> call_glGetIntegerv h f GL_MAJOR_VERSION (major (version s))"
  defines "reported_minor \<equiv> call_glGetIntegerv h f GL_MINOR_VERSION (minor (version s))"
  shows "(fst (parse_version h s) \<noteq> 0 \<longleftrightarrow> f = 0 \<or> sint reported_major < 3)
    \<and> (fst (parse_version h s) = 0 \<or> fst (parse_version h s) = - 1)
    \<and> (fst (parse_version h s) = 0 \<longrightarrow>
         version (snd (parse_version h s)) = \<lparr>major = reported_major, minor = reported_minor\<rparr>)"
  unfolding f_def reported_major_def reported_minor_def
  by (auto simp add: parse_version_def enter_def Let_def)

theorem parse_version_result_witness:
  "fst (parse_version (sim_driver 3 2) (init_loader\<lparr>procs := sim_lookup\<rparr>)) = 0
   \<and> version (snd (parse_version (sim_driver 3 2) (init_loader\<lparr>procs := sim_lookup\<rparr>)))
       = \<lparr>major = 3, minor = 2\<rparr>
   \<and> fst (parse_version (sim_driver 2 1) (init_loader\<lparr>procs := sim_lookup\<rparr>)) = - 1
   \<and> fst (parse_version (sim_driver 3 2) init_loader) = - 1"
proof -
  have a: "fst (parse_version (sim_driver 3 2) (init_loader\<lparr>procs := sim_lookup\<rparr>)) = 0"
    using parse_version_result [of "sim_driver 3 2" "init_loader\<lparr>procs := sim_lookup\<rparr>"]
    by (simp add: sim_driver_def sim_lookup_def init_loader_def)
  have b: "version (snd (parse_version (sim_driver 3 2) (init_loader\<lparr>procs := sim_lookup\<rparr>)))
       = \<lparr>major = 3, minor = 2\<rparr>"
    using a parse_version_result [of "sim_driver 3 2" "init_loader\<lparr>procs := sim_lookup\<rparr>"]
    by (simp add: sim_driver_def sim_lookup_def init_loader_def)
  have c: "fst (parse_version (sim_driver 2 1) (init_loader\<lparr>procs := sim_lookup\<rparr>)) = - 1"
    using parse_version_result [of "sim_driver 2 1" "init_loader\<lparr>procs := sim_lookup\<rparr>"]
    by (auto simp add: sim_driver_def sim_lookup_def init_loader_def)
  have d: "fst (parse_version (sim_driver 3 2) init_loader) = - 1"
    using parse_version_result [of "sim_driver 3 2" init_loader]
    by (auto simp add: init_loader_def)
  from a b c d show ?thesis by simp
qed

text \<open>
  C3 (as amended).  On every host on which each step comes back, \<open>gl3wInit\<close> returns,
  and the run has entered, in this order and nothing else: \<open>open_libgl\<close>, \<open>get_proc\<close>
  once for each catalog symbol in catalog order, \<open>close_libgl\<close>, \<open>parse_version\<close>.
  Each step starts from the state the step before it left, the handles \<open>open_libgl\<close>
  stored are the same all through loading, and what \<open>gl3wInit\<close> returns is what
  \<open>parse_version\<close> returned on the state \<open>close_libgl\<close> left.  On the Apple branch,
  when the bundle could not be created, the run ends in the \<^verbatim>\<open>assert\<close> of \<open>open_libgl\<close>.
\<close>

theorem gl3wInit_sequence:
  "(steps_return p h catalog \<longrightarrow>
      (\<exists>r s' s1 s2 s3.
         gl3wInit p h catalog s = Returns (r, s')
         \<and> open_libgl p h s = Returns s1 \<and> trace s1 = trace s @ [Ev_open_libgl]
         \<and> load_procs p h catalog s1 = Returns s2 \<and> trace s2 = trace s1 @ map Ev_get_proc catalog
         \<and> libgl s2 = libgl s1 \<and> bundle_ref s2 = bundle_ref s1
         \<and> glx_get_proc_address s2 = glx_get_proc_address s1
         \<and> close_libgl p h s2 = Returns s3 \<and> trace s3 = trace s2 @ [Ev_close_libgl]
         \<and> parse_version h s3 = (r, s') \<and> trace s' = trace s3 @ [Ev_parse_version]
         \<and> trace s' = trace s @ [Ev_open_libgl] @ map Ev_get_proc catalog
                        @ [Ev_close_libgl, Ev_parse_version]))
   \<and> (CFBundleCreate h (CFURLCreateWithFileSystemPath h ''/System/Library/Frameworks/OpenGL.framework'') = 0 \<longrightarrow>
        open_libgl Apple h s = AssertFailed \<and> gl3wInit Apple h catalog s = AssertFailed)"
proof -
  have a: "\<exists>r s' s1 s2 s3.
         gl3wInit p h catalog s = Returns (r, s')
         \<and> open_libgl p h s = Returns s1 \<and> trace s1 = trace s @ [Ev_open_libgl]
         \<and> load_procs p h catalog s1 = Returns s2 \<and> trace s2 = trace s1 @ map Ev_get_proc catalog
         \<and> libgl s2 = libgl s1 \<and> bundle_ref s2 = bundle_ref s1
         \<and> glx_get_proc_address s2 = glx_get_proc_address s1
         \<and> close_libgl p h s2 = Returns s3 \<and> trace s3 = trace s2 @ [Ev_close_libgl]
         \<and> parse_version h s3 = (r, s') \<and> trace s' = trace s3 @ [Ev_parse_version]
         \<and> trace s' = trace s @ [Ev_open_libgl] @ map Ev_get_proc catalog
                        @ [Ev_close_libgl, Ev_parse_version]"
    if ok: "steps_return p h catalog"
  proof -
    from gl3wInit_total [OF ok, of s] obtain r s' s1 s2 where
      run: "gl3wInit p h catalog s = Returns (r, s')" and
      o: "open_libgl p h s = Returns s1" and l: "load_procs p h catalog s1 = Returns s2" and
      c: "close_libgl p h s2 = Returns (enter Ev_close_libgl s2)" and
      v: "parse_version h (enter Ev_close_libgl s2) = (r, s')"
      by blast
    let ?s3 = "enter Ev_close_libgl s2"
    from open_libgl_Returns [OF o] have t1: "trace s1 = trace s @ [Ev_open_libgl]" by simp
    note f = load_procs_Returns [OF l]
    from f have t2: "trace s2 = trace s1 @ map Ev_get_proc catalog" by simp
    have t3: "trace ?s3 = trace s2 @ [Ev_close_libgl]" by (simp add: enter_def)
    from parse_version_frame [OF v] have t4: "trace s' = trace ?s3 @ [Ev_parse_version]" by simp
    have t5: "trace s' = trace s @ [Ev_open_libgl] @ map Ev_get_proc catalog
                        @ [Ev_close_libgl, Ev_parse_version]"
      by (simp add: t1 t2 t3 t4)
    from run o t1 l t2 f c t3 v t4 t5 show ?thesis by blast
  qed
  have b: "open_libgl Apple h s = AssertFailed \<and> gl3wInit Apple h catalog s = AssertFailed"
    if "CFBundleCreate h (CFURLCreateWithFileSystemPath h ''/System/Library/Frameworks/OpenGL.framework'') = 0"
    using that by (simp add: gl3wInit_def open_libgl_def and_then_def Let_def)
  from a b show ?thesis by blast
qed

theorem gl3wInit_sequence_witness:
  "(\<exists>r s'. gl3wInit Win32 (sim_driver 3 2) [''glFoo'', ''glBar'', ''glGetIntegerv''] init_loader = Returns (r, s')
     \<and> trace s' = [Ev_open_libgl, Ev_get_proc ''glFoo'', Ev_get_proc ''glBar'',
          Ev_get_proc ''glGetIntegerv'', Ev_close_libgl, Ev_parse_version])
   \<and> gl3wInit Apple no_driver [''glFoo''] init_loader = AssertFailed"
proof -
  note t = gl3wInit_sequence [of Win32 "sim_driver 3 2" "[''glFoo'', ''glBar'', ''glGetIntegerv'']" init_loader]
  have ok: "steps_return Win32 (sim_driver 3 2) [''glFoo'', ''glBar'', ''glGetIntegerv'']"
    by (simp add: steps_return_def sim_driver_def)
  from t ok have a: "\<exists>r s'. gl3wInit Win32 (sim_driver 3 2) [''glFoo'', ''glBar'', ''glGetIntegerv''] init_loader = Returns (r, s')
     \<and> trace s' = [Ev_open_libgl, Ev_get_proc ''glFoo'', Ev_get_proc ''glBar'',
          Ev_get_proc ''glGetIntegerv'', Ev_close_libgl, Ev_parse_version]"
    by (auto simp add: init_loader_def)
  from gl3wInit_sequence [of Apple no_driver "[''glFoo'']" init_loader]
  have b: "gl3wInit Apple no_driver [''glFoo''] init_loader = AssertFailed"
    by (simp add: no_driver_def)
  from a b show ?thesis by blast
qed

text \<open>
  C3 as the specification states it says that \<open>gl3wInit\<close> goes through all four steps
  and returns the result of \<open>parse_version\<close>.  On the Apple branch, on a machine where the
  bundle cannot be created, the run ends inside \<open>open_libgl\<close>: nothing is loaded or
  closed, and no version is parsed.
\<close>

theorem gl3wInit_sequence_counterexample:
  "open_libgl Apple no_driver init_loader = AssertFailed
   \<and> gl3wInit Apple no_driver [''glFoo'', ''glBar''] init_loader = AssertFailed"
  by (simp add: run_defs)

text \<open>
  C4 (as amended).  On every host on which each step comes back, \<open>gl3wInit\<close> returns,
  and what it returns is decided by the version query alone: it is the result of
  \<open>parse_version\<close>, nonzero (and then \<open>-1\<close>) exactly when the pointer of glGetIntegerv is
  null after loading or the major number the call through it reports is below 3, whatever
  the other symbols resolved to.  On the Apple branch, when the bundle could not be created,
  \<open>gl3wInit\<close> returns no status: the \<^verbatim>\<open>assert\<close> ends the process.
\<close>

theorem gl3wInit_return_code:
  "(steps_return p h catalog \<longrightarrow>
      (\<exists>r s' s3.
         gl3wInit p h catalog s = Returns (r, s')
         \<and> (r \<noteq> 0 \<longleftrightarrow>
              procs s' ''glGetIntegerv'' = 0 \<or>
              sint (call_glGetIntegerv h (procs s' ''glGetIntegerv'') GL_MAJOR_VERSION
                     (major (version s))) < 3)
         \<and> (r = 0 \<or> r = - 1)
         \<and> parse_version h s3 = (r, s') \<and> version s3 = version s))
   \<and> (CFBundleCreate h (CFURLCreateWithFileSystemPath h ''/System/Library/Frameworks/OpenGL.framework'') = 0 \<longrightarrow> gl3wInit Apple h catalog s = AssertFailed)"
proof -
  have a: "\<exists>r s' s3.
         gl3wInit p h catalog s = Returns (r, s')
         \<and> (r \<noteq> 0 \<longleftrightarrow>
              procs s' ''glGetIntegerv'' = 0 \<or>
              sint (call_glGetIntegerv h (procs s' ''glGetIntegerv'') GL_MAJOR_VERSION
                     (major (version s))) < 3)
         \<and> (r = 0 \<or> r = - 1)
         \<and> parse_version h s3 = (r, s') \<and> version s3 = version s"
    if ok: "steps_return p h catalog"
  proof -
    from gl3wInit_total [OF ok, of s] obtain r s' s1 s2 where
      run: "gl3wInit p h catalog s = Returns (r, s')" and
      o: "open_libgl p h s = Returns s1" and l: "load_procs p h catalog s1 = Returns s2" and
      v: "parse_version h (enter Ev_close_libgl s2) = (r, s')"
      by blast
    let ?s3 = "enter Ev_close_libgl s2"
    from open_libgl_Returns [OF o] load_procs_Returns [OF l]
    have ver: "version ?s3 = version s" by (simp add: enter_def)
    from parse_version_frame [OF v] have pr: "procs s' = procs ?s3" by simp
    have r: "r = fst (parse_version h ?s3)" by (simp add: v)
    have "fst (parse_version h ?s3) \<noteq> 0 \<longleftrightarrow>
       procs ?s3 ''glGetIntegerv'' = 0 \<or>
       sint (call_glGetIntegerv h (procs ?s3 ''glGetIntegerv'') GL_MAJOR_VERSION
              (major (version ?s3))) < 3"
      by (auto simp add: parse_version_def enter_def Let_def)
    then have i: "r \<noteq> 0 \<longleftrightarrow>
              procs s' ''glGetIntegerv'' = 0 \<or>
              sint (call_glGetIntegerv h (procs s' ''glGetIntegerv'') GL_MAJOR_VERSION
                     (major (version s))) < 3"
      by (simp only: r pr ver)
    have b: "r = 0 \<or> r = - 1"
      unfolding r by (auto simp add: parse_version_def enter_def Let_def)
    from run i b v ver show ?thesis by blast
  qed
  have b: "gl3wInit Apple h catalog s = AssertFailed" if "CFBundleCreate h (CFURLCreateWithFileSystemPath h ''/System/Library/Frameworks/OpenGL.framework'') = 0"
    using that by (simp add: gl3wInit_def open_libgl_def and_then_def Let_def)
  from a b show ?thesis by blast
qed

text \<open>
  On the simulated driver: a reported 2.1 gives \<open>-1\<close> although \<^verbatim>\<open>glBar\<close> and
  \<^verbatim>\<open>glGetIntegerv\<close> resolved; a reported 3.2 gives 0 although \<^verbatim>\<open>glFoo\<close> is null; a
  catalog without glGetIntegerv leaves its pointer null and gives \<open>-1\<close>; without a bundle
  the Apple branch gives no status.
\<close>

theorem gl3wInit_return_code_witness:
  "(\<exists>s'. gl3wInit Posix (sim_driver 2 1) [''glFoo'', ''glBar'', ''glGetIntegerv''] init_loader = Returns (- 1, s')
        \<and> procs s' ''glBar'' = 7 \<and> procs s' ''glGetIntegerv'' = 9)
   \<and> (\<exists>s'. gl3wInit Posix (sim_driver 3 2) [''glFoo'', ''glBar'', ''glGetIntegerv''] init_loader = Returns (0, s')
        \<and> procs s' ''glFoo'' = 0)
   \<and> (\<exists>s'. gl3wInit Posix (sim_driver 3 2) [''glFoo'', ''glBar''] init_loader = Returns (- 1, s'))
   \<and> gl3wInit Apple no_driver [''glGetIntegerv''] init_loader = AssertFailed"
proof -
  obtain r1 s1 where
    run1: "gl3wInit Posix (sim_driver 2 1) [''glFoo'', ''glBar'', ''glGetIntegerv''] init_loader = Returns (r1, s1)"
    and p1: "procs s1 ''glBar'' = 7" "procs s1 ''glGetIntegerv'' = 9"
    by (simp add: run_defs)
  have ok1: "steps_return Posix (sim_driver 2 1) [''glFoo'', ''glBar'', ''glGetIntegerv'']"
    by (simp add: steps_return_def sim_driver_def)
  from gl3wInit_return_code [of Posix "sim_driver 2 1" "[''glFoo'', ''glBar'', ''glGetIntegerv'']" init_loader]
    ok1 run1 p1
  have "r1 = - 1" by (auto simp add: sim_driver_def)
  with run1 p1 have a: "\<exists>s'. gl3wInit Posix (sim_driver 2 1) [''glFoo'', ''glBar'', ''glGetIntegerv''] init_loader = Returns (- 1, s')
        \<and> procs s' ''glBar'' = 7 \<and> procs s' ''glGetIntegerv'' = 9" by blast
  obtain r2 s2 where
    run2: "gl3wInit Posix (sim_driver 3 2) [''glFoo'', ''glBar'', ''glGetIntegerv''] init_loader = Returns (r2, s2)"
    and p2: "procs s2 ''glFoo'' = 0" "procs s2 ''glGetIntegerv'' = 9"
    by (simp add: run_defs)
  have ok2: "steps_return Posix (sim_driver 3 2) [''glFoo'', ''glBar'', ''glGetIntegerv'']"
    by (simp add: steps_return_def sim_driver_def)
  from gl3wInit_return_code [of Posix "sim_driver 3 2" "[''glFoo'', ''glBar'', ''glGetIntegerv'']" init_loader]
    ok2 run2 p2
  have "r2 = 0" by (auto simp add: sim_driver_def)
  with run2 p2 have b: "\<exists>s'. gl3wInit Posix (sim_driver 3 2) [''glFoo'', ''glBar'', ''glGetIntegerv''] init_loader = Returns (0, s')
        \<and> procs s' ''glFoo'' = 0" by blast
  obtain r3 s3 where
    run3: "gl3wInit Posix (sim_driver 3 2) [''glFoo'', ''glBar''] init_loader = Returns (r3, s3)"
    and p3: "procs s3 ''glGetIntegerv'' = 0"
    by (simp add: run_defs)
  have ok3: "steps_return Posix (sim_driver 3 2) [''glFoo'', ''glBar'']"
    by (simp add: steps_return_def sim_driver_def)
  from gl3wInit_return_code [of Posix "sim_driver 3 2" "[''glFoo'', ''glBar'']" init_loader]
    ok3 run3 p3
  have "r3 = - 1" by auto
  with run3 have c: "\<exists>s'. gl3wInit Posix (sim_driver 3 2) [''glFoo'', ''glBar''] init_loader = Returns (- 1, s')" by blast
  from gl3wInit_return_code [of Apple no_driver "[''glGetIntegerv'']" init_loader]
  have d: "gl3wInit Apple no_driver [''glGetIntegerv''] init_loader = AssertFailed"
    by (simp add: no_driver_def)
  from a b c d show ?thesis by blast
qed

text \<open>
  C4 as the specification states it says that for every driver \<open>gl3wInit\<close> returns
  nonzero when the version query fails, and in particular when the driver reports major 2.
  On the Apple branch, with a driver that reports 2.1 on a machine where the bundle cannot be
  created, \<open>gl3wInit\<close> returns nothing.
\<close>

theorem gl3wInit_return_code_counterexample:
  "gl3wInit Apple ((sim_driver 2 1)\<lparr>CFBundleCreate := (\<lambda>_. 0)\<rparr>)
     [''glFoo'', ''glBar'', ''glGetIntegerv''] init_loader = AssertFailed"
  by (simp add: run_defs)




text \<open>
  C6.  The default branch on a machine without libGL: \<^verbatim>\<open>dlopen\<close> gives null, the lookup
  of \<^verbatim>\<open>glXGetProcAddressARB\<close> gives null, \<open>open_libgl\<close> returns all the same, and the
  first \<open>get_proc\<close> calls the null pointer instead of returning null; so does
  \<open>gl3wInit\<close> with a catalog of one symbol.
\<close>

theorem posix_open_failure_null_call:
  "open_libgl Posix no_driver init_loader
     = Returns (init_loader\<lparr>trace := [Ev_open_libgl], libgl := 0, glx_get_proc_address := 0\<rparr>)
   \<and> get_proc Posix no_driver ''glGetIntegerv''
       (init_loader\<lparr>trace := [Ev_open_libgl], libgl := 0, glx_get_proc_address := 0\<rparr>) = NullCall
   \<and> gl3wInit Posix no_driver [''glGetIntegerv''] init_loader = NullCall"
  by (simp add: run_defs)

text \<open>
  C7.  \<open>version\<close> starts as 0.0.  When \<open>gl3wInit\<close>, started with \<open>version\<close> 0.0,
  returns and the pointer of glGetIntegerv is null, it returns nonzero, \<open>version\<close> is
  still 0.0, and \<open>gl3wIsSupported\<close> answers 0 for every pair of arguments.
\<close>

theorem version_stays_zero:
  assumes "version s = \<lparr>major = 0, minor = 0\<rparr>"
    and "gl3wInit p h catalog s = Returns (r, s')"
    and "procs s' ''glGetIntegerv'' = 0"
  shows "version init_loader = \<lparr>major = 0, minor = 0\<rparr>
    \<and> r \<noteq> 0 \<and> version s' = \<lparr>major = 0, minor = 0\<rparr>
    \<and> gl3wIsSupported s' major' minor' = 0"
proof -
  from assms(2) obtain s1 s2 where
    o: "open_libgl p h s = Returns s1" and l: "load_procs p h catalog s1 = Returns s2" and
    v: "parse_version h (enter Ev_close_libgl s2) = (r, s')"
    by (auto simp add: gl3wInit_Returns)
  let ?s3 = "enter Ev_close_libgl s2"
  from open_libgl_Returns [OF o] load_procs_Returns [OF l]
  have ver: "version ?s3 = version s" by (simp add: enter_def)
  from parse_version_frame [OF v] assms(3) have null: "procs ?s3 ''glGetIntegerv'' = 0" by simp
  from v null have r: "r = - 1" and s': "s' = enter Ev_parse_version ?s3"
    by (auto simp add: parse_version_def Let_def enter_def)
  from s' ver assms(1) have z: "version s' = \<lparr>major = 0, minor = 0\<rparr>" by (simp add: enter_def)
  have q: "gl3wIsSupported s' major' minor' = 0"
    by (auto simp add: gl3wIsSupported_def z)
  from r z q show ?thesis by (simp add: init_loader_def)
qed

theorem version_stays_zero_witness:
  "\<exists>r s'. gl3wInit Win32 no_driver [''glFoo'', ''glGetIntegerv''] init_loader = Returns (r, s')
      \<and> r \<noteq> 0 \<and> version s' = \<lparr>major = 0, minor = 0\<rparr> \<and> gl3wIsSupported s' 3 0 = 0
      \<and> gl3wIsSupported s' 0 0 = 0"
proof -
  obtain r s' where
    run: "gl3wInit Win32 no_driver [''glFoo'', ''glGetIntegerv''] init_loader = Returns (r, s')"
    and null: "procs s' ''glGetIntegerv'' = 0"
    by (simp add: run_defs)
  have z: "version init_loader = \<lparr>major = 0, minor = 0\<rparr>" by (simp add: init_loader_def)
  from version_stays_zero [OF z run null, of 3 0] version_stays_zero [OF z run null, of 0 0] run
  show ?thesis by blast
qed



text \<open>
  C10.  On the Windows branch \<open>get_proc\<close> returns the two-step rule's result with
  \<^verbatim>\<open>wglGetProcAddress\<close> first and \<^verbatim>\<open>GetProcAddress\<close> on \<open>libgl\<close> second; on the
  default branch, with the extension function found, the same with the call through
  \<^verbatim>\<open>glx_get_proc_address\<close> first and \<^verbatim>\<open>dlsym\<close> on \<open>libgl\<close> second.
\<close>

theorem get_proc_fallback:
  "get_proc Win32 h proc s =
     Returns (fallback_spec (wglGetProcAddress h) (GetProcAddress h (libgl s)) proc,
              enter (Ev_get_proc proc) s)
   \<and> (glx_get_proc_address s \<noteq> 0 \<longrightarrow>
        get_proc Posix h proc s =
          Returns (fallback_spec (call_glXGetProcAddress h (glx_get_proc_address s))
                     (dlsym h (libgl s)) proc,
                   enter (Ev_get_proc proc) s))"
  by (simp add: get_proc_def fallback_spec_def Let_def enter_def)

text \<open>
  On the simulated driver, default branch: \<^verbatim>\<open>glBar\<close> comes from the extension function;
  \<^verbatim>\<open>glXGetProcAddressARB\<close>, which the extension function does not know, from \<^verbatim>\<open>dlsym\<close>.
\<close>

theorem get_proc_fallback_witness:
  "(\<exists>s'. get_proc Posix (sim_driver 3 2) ''glBar'' (init_loader\<lparr>glx_get_proc_address := 50\<rparr>)
          = Returns (7, s'))
   \<and> (\<exists>s'. get_proc Posix (sim_driver 3 2) ''glXGetProcAddressARB''
          (init_loader\<lparr>glx_get_proc_address := 50\<rparr>) = Returns (50, s'))
   \<and> (\<exists>s'. get_proc Win32 (sim_driver 3 2) ''glFoo'' init_loader = Returns (0, s'))"
proof -
  let ?s = "init_loader\<lparr>glx_get_proc_address := 50\<rparr>"
  from get_proc_fallback [of "sim_driver 3 2" "''glBar''" ?s]
  have a: "\<exists>s'. get_proc Posix (sim_driver 3 2) ''glBar'' ?s = Returns (7, s')"
    by (simp add: fallback_spec_def sim_driver_def sim_lookup_def)
  from get_proc_fallback [of "sim_driver 3 2" "''glXGetProcAddressARB''" ?s]
  have b: "\<exists>s'. get_proc Posix (sim_driver 3 2) ''glXGetProcAddressARB'' ?s = Returns (50, s')"
    by (simp add: fallback_spec_def sim_driver_def sim_lookup_def)
  from get_proc_fallback [of "sim_driver 3 2" "''glFoo''" init_loader]
  have c: "\<exists>s'. get_proc Win32 (sim_driver 3 2) ''glFoo'' init_loader = Returns (0, s')"
    by (simp add: fallback_spec_def sim_driver_def sim_lookup_def)
  from a b c show ?thesis by blast
qed

end
